theory Spec2Isabelle
  imports Complex_Main
begin

section \<open>Strings as the Python code uses them\<close>

text \<open>
  Python strings are modelled as \<^typ>\<open>string\<close>: a character is a code point below 256
  (Latin-1). There \<open>str.lower\<close> adds 32 to the code points of \<open>A\<close>..\<open>Z\<close> and of the
  accented capitals 0xC0..0xDE (0xD7, the multiplication sign, is no letter) and leaves every
  other character alone, and \<open>str.isspace\<close> holds of the code points 0x09..0x0D,
  0x1C..0x20, 0x85 and 0xA0.
\<close>

definition upper_letters :: string where
  "upper_letters = ''ABCDEFGHIJKLMNOPQRSTUVWXYZ''"

definition digits :: string where
  "digits = ''0123456789''"

definition lower_char :: "char \<Rightarrow> char" where
  "lower_char c =
     (let n = (of_char c :: nat) in
      if (65 \<le> n \<and> n \<le> 90) \<or> (192 \<le> n \<and> n \<le> 222 \<and> n \<noteq> 215)
      then char_of (n + 32)
      else c)"

definition lower :: "string \<Rightarrow> string" where
  "lower s = map lower_char s"

definition isspace :: "char \<Rightarrow> bool" where
  "isspace c = (c \<in> set [CHR 0x09, CHR 0x0A, CHR 0x0B, CHR 0x0C, CHR 0x0D,
                           CHR 0x1C, CHR 0x1D, CHR 0x1E, CHR 0x1F, CHR 0x20,
                           CHR 0x85, CHR 0xA0])"

definition strip :: "string \<Rightarrow> string" where
  "strip s = rev (dropWhile isspace (rev (dropWhile isspace s)))"

text \<open>\<open>str_in kw s\<close> is Python's \<open>kw in s\<close> on strings.\<close>

fun str_in :: "string \<Rightarrow> string \<Rightarrow> bool" where
  "str_in kw [] = (kw = [])"
| "str_in kw (c # cs) = (take (length kw) (c # cs) = kw \<or> str_in kw cs)"

text \<open>\<open>any(kw in s for kw in kws)\<close>.\<close>

definition any_in :: "string list \<Rightarrow> string \<Rightarrow> bool" where
  "any_in kws s = list_ex (\<lambda>kw. str_in kw s) kws"

text \<open>\<open>sep.join(xs)\<close>.\<close>

fun join :: "string \<Rightarrow> string list \<Rightarrow> string" where
  "join sep [] = []"
| "join sep [x] = x"
| "join sep (x # y # ys) = x @ sep @ join sep (y # ys)"

text \<open>
  The text after the first occurrence of \<open>kw\<close> in \<open>s\<close>, and the lines of a text: the
  two ingredients of the regular expressions \<open>31.*12.*2025\<close> and \<open>2025.*12.*31\<close>, in
  which \<open>.\<close> matches every character but the newline.
\<close>

fun after_first :: "string \<Rightarrow> string \<Rightarrow> string option" where
  "after_first kw [] = (if kw = [] then Some [] else None)"
| "after_first kw (c # cs) =
     (if take (length kw) (c # cs) = kw then Some (drop (length kw) (c # cs))
      else after_first kw cs)"

fun split_lines :: "string \<Rightarrow> string list" where
  "split_lines [] = [[]]"
| "split_lines (c # cs) =
     (if c = CHR 0x0A then [] # split_lines cs
      else (case split_lines cs of
              l # ls \<Rightarrow> (c # l) # ls
            | [] \<Rightarrow> [[c]]))"

definition in_order3 :: "string \<Rightarrow> string \<Rightarrow> string \<Rightarrow> string \<Rightarrow> bool" where
  "in_order3 a b c line =
     (case after_first a line of
        None \<Rightarrow> False
      | Some r \<Rightarrow> (case after_first b r of
                    None \<Rightarrow> False
                  | Some r' \<Rightarrow> str_in c r'))"

text \<open>
  \<open>re.search(r'(december|31.*12.*2025|2025.*12.*31)', s, re.IGNORECASE)\<close> finds a match.
\<close>

definition date_match :: "string \<Rightarrow> bool" where
  "date_match s =
     (let t = lower s in
        str_in ''december'' t \<or>
        list_ex (\<lambda>l. in_order3 ''31'' ''12'' ''2025'' l \<or> in_order3 ''2025'' ''12'' ''31'' l)
          (split_lines t))"

text \<open>
  \<open>re.match(r'^[A-Z]{2}[A-Z0-9]{9}[0-9]$', s)\<close> finds a match. Python's \<open>$\<close> also
  matches just before a newline that ends the string.
\<close>

definition isin_match :: "string \<Rightarrow> bool" where
  "isin_match s =
     ((length s = 12 \<or> (length s = 13 \<and> s ! 12 = CHR 0x0A)) \<and>
      list_all (\<lambda>c. c \<in> set upper_letters) (take 2 s) \<and>
      list_all (\<lambda>c. c \<in> set upper_letters \<or> c \<in> set digits) (take 9 (drop 2 s)) \<and>
      s ! 11 \<in> set digits)"


section \<open>Cells, grids and rows\<close>

text \<open>
  A cell of a sheet as pandas hands it to the code. The code looks at a cell in three ways
  only: \<open>pd.isna\<close>/\<open>pd.notna\<close>, \<open>str(cell)\<close> and \<open>float(cell)\<close>. A cell that is not
  missing is therefore given by the text \<open>str\<close> returns for it and by the number \<open>float\<close>
  returns for it (\<open>None\<close> where \<open>float\<close> raises). A float that is a number is a rational;
  the extractor stores these numbers and does no arithmetic on them.
\<close>

datatype cell = NaN | Val string "rat option"

fun notna :: "cell \<Rightarrow> bool" where
  "notna NaN = False"
| "notna (Val s f) = True"

definition isna :: "cell \<Rightarrow> bool" where
  "isna c = (\<not> notna c)"

fun str :: "cell \<Rightarrow> string" where
  "str NaN = ''nan''"
| "str (Val s f) = s"

fun float :: "cell \<Rightarrow> rat option" where
  "float NaN = None"
| "float (Val s f) = f"

datatype error = IndexError | ValueError | KeyError | AttributeError | ReadError

text \<open>A sheet read with \<open>header=None\<close>: rows of cells.\<close>

type_synonym grid = "cell list list"

text \<open>
  A row of a sheet read with a header row (a pandas \<open>Series\<close>): the cells in column
  order, each under the label of its column. Labels may repeat.
\<close>

type_synonym series = "(string \<times> cell) list"


section \<open>Cell classifier\<close>

definition find_reporting_date :: "grid \<Rightarrow> string" where
  "find_reporting_date df =
     (if list_ex (\<lambda>row. list_ex (\<lambda>cell. date_match (str cell)) row) (take 10 df)
      then ''2025-12-31''
      else ''2025-12-31'')"

definition header_keywords :: "string list" where
  "header_keywords = [''name'', ''isin'', ''quantity'', ''rating'', ''industry'', ''instrument'']"

definition row_text :: "cell list \<Rightarrow> string" where
  "row_text row = join '' '' (map (\<lambda>cell. lower (str cell)) (filter notna row))"

definition keyword_matches :: "cell list \<Rightarrow> nat" where
  "keyword_matches row = length (filter (\<lambda>keyword. str_in keyword (row_text row)) header_keywords)"

fun find_header_loop :: "nat \<Rightarrow> grid \<Rightarrow> nat option" where
  "find_header_loop idx [] = None"
| "find_header_loop idx (row # rows) =
     (if keyword_matches row \<ge> 2 then Some idx else find_header_loop (Suc idx) rows)"

text \<open>\<open>for idx in range(min(20, len(df)))\<close> visits the first 20 rows, or all of them.\<close>

definition find_header_row :: "grid \<Rightarrow> nat option" where
  "find_header_row df = find_header_loop 0 (take (min 20 (length df)) df)"

definition section_keywords :: "string list" where
  "section_keywords =
     [''equity'', ''debt instruments'', ''government securities'', ''corporate bonds'',
      ''money market'', ''net current'', ''listed'', ''unlisted'', ''awaiting listing'',
      ''privately placed'', ''reverse repo'', ''treps'', ''treasury'', ''certificate of deposit'',
      ''commercial paper'']"

text \<open>
  \<open>str(row.iloc[k]).lower() if pd.notna(row.iloc[k]) else ""\<close>, and the text
  \<open>f"{first_cell} {second_cell}"\<close> that both classifiers build. \<open>row.iloc[0]\<close> raises
  \<open>IndexError\<close> on a row without cells; the second cell is read only when it exists.
\<close>

definition cell_lower :: "cell \<Rightarrow> string" where
  "cell_lower c = (if notna c then lower (str c) else [])"

fun combined :: "series \<Rightarrow> error + string" where
  "combined [] = Inl IndexError"
| "combined [(l0, c0)] = Inr (cell_lower c0 @ '' '' @ [])"
| "combined ((l0, c0) # (l1, c1) # rest) = Inr (cell_lower c0 @ '' '' @ cell_lower c1)"

definition has_isin :: "series \<Rightarrow> bool" where
  "has_isin row = list_ex (\<lambda>cell. notna cell \<and> isin_match (str cell)) (map snd row)"

definition is_section_header :: "series \<Rightarrow> error + bool" where
  "is_section_header row =
     (case combined row of
        Inl e \<Rightarrow> Inl e
      | Inr text \<Rightarrow>
          Inr (if any_in section_keywords text
               then (if \<not> has_isin row then True else False)
               else False))"

definition equity_keywords :: "string list" where
  "equity_keywords = [''equity'', ''stock'']"

definition debt_keywords :: "string list" where
  "debt_keywords = [''debt instruments'', ''government securities'', ''bond'', ''debenture'']"

definition money_market_keywords :: "string list" where
  "money_market_keywords =
     [''money market'', ''cash'', ''liquid'', ''reverse repo'', ''treps'', ''treasury bill'',
      ''certificate of deposit'', ''commercial paper'']"

definition classify_instrument_type :: "series \<Rightarrow> error + string" where
  "classify_instrument_type row =
     (case combined row of
        Inl e \<Rightarrow> Inl e
      | Inr text \<Rightarrow>
          Inr (if any_in equity_keywords text then ''Equity''
               else if any_in debt_keywords text then ''Debt''
               else if any_in money_market_keywords text then ''Money Market''
               else ''Other''))"


section \<open>Row extractor\<close>

text \<open>
  A holding is the Python dictionary the extractor fills: a key is absent, or holds a
  string, a number, or \<open>None\<close>.
\<close>

datatype pyval = PStr string | PFloat rat | PNone

type_synonym holding = "string \<rightharpoonup> pyval"

text \<open>\<open>try: float(value)\<close>, \<open>except: None\<close>.\<close>

definition try_float :: "cell \<Rightarrow> pyval" where
  "try_float value = (case float value of Some x \<Rightarrow> PFloat x | None \<Rightarrow> PNone)"

text \<open>One pass of the body of \<open>for col_name in row.index\<close>, for a column read as one cell.\<close>

definition set_field :: "string \<Rightarrow> cell \<Rightarrow> holding \<Rightarrow> holding" where
  "set_field col_name value holding =
     (let col_lower = lower col_name in
      if isna value then holding
      else if any_in [''name of the instrument'', ''name'', ''security''] col_lower then
        (if \<not> str_in ''isin'' col_lower
         then holding(''instrument_name'' \<mapsto> PStr (strip (str value)))
         else holding)
      else if str_in ''isin'' col_lower then
        holding(''isin'' \<mapsto> PStr (strip (str value)))
      else if str_in ''industry'' col_lower \<or> str_in ''rating'' col_lower then
        holding(''industry_rating'' \<mapsto> PStr (strip (str value)))
      else if str_in ''quantity'' col_lower then
        holding(''quantity'' \<mapsto> try_float value)
      else if any_in [''market'', ''fair value'', ''value''] col_lower then
        (if str_in ''rs'' col_lower \<or> str_in ''lakhs'' col_lower \<or> str_in ''amount'' col_lower
         then holding(''market_value_lakhs'' \<mapsto> try_float value)
         else holding)
      else if str_in ''%'' col_lower \<or> str_in ''net assets'' col_lower then
        holding(''percentage_of_portfolio'' \<mapsto> try_float value)
      else holding)"

text \<open>
  The loop over \<open>row.index\<close>. \<open>row[col_name]\<close> is the cell under the label when the label
  occurs once in the row; when the label repeats it is a \<open>Series\<close> of the cells under it,
  and \<open>if pd.isna(value)\<close> raises \<open>ValueError\<close> on it.
\<close>

fun extract_fields :: "series \<Rightarrow> series \<Rightarrow> holding \<Rightarrow> error + holding" where
  "extract_fields row [] holding = Inr holding"
| "extract_fields row ((col_name, value) # rest) holding =
     (if 1 < length (filter (\<lambda>(label, cell). label = col_name) row) then Inl ValueError
      else extract_fields row rest (set_field col_name value holding))"

definition skip_keywords :: "string list" where
  "skip_keywords =
     [''total'', ''sub-total'', ''subtotal'', ''net current'', ''grand total'',
      ''net receivables'', ''net payables'', ''listed / awaiting'',
      ''privately placed'', ''unlisted'', ''benchmark'', ''risk-o-meter'']"

text \<open>
  The filter at the end of \<open>extract_holding_from_row\<close>. Only a string is ever stored
  under \<open>instrument_name\<close>.
\<close>

definition keep_holding :: "holding \<Rightarrow> holding option" where
  "keep_holding holding =
     (case holding ''instrument_name'' of
        Some (PStr name) \<Rightarrow>
          if name \<noteq> [] then
            (let name_lower = lower name in
             if \<not> any_in skip_keywords name_lower then
               (if 3 < length (strip name) then Some holding else None)
             else None)
          else None
      | _ \<Rightarrow> None)"

definition extract_holding_from_row ::
    "string \<Rightarrow> series \<Rightarrow> string \<Rightarrow> string \<Rightarrow> string \<Rightarrow> error + holding option" where
  "extract_holding_from_row amc_name row scheme_name instrument_type reporting_date =
     (if list_all isna (map snd row) then Inr None
      else
        (case extract_fields row row
                [''amc_name'' \<mapsto> PStr amc_name,
                 ''scheme_name'' \<mapsto> PStr scheme_name,
                 ''instrument_type'' \<mapsto> PStr instrument_type,
                 ''reporting_date'' \<mapsto> PStr reporting_date] of
           Inl e \<Rightarrow> Inl e
         | Inr holding \<Rightarrow> Inr (keep_holding holding)))"


section \<open>Sheet processor and workbook consolidator\<close>

text \<open>
  A sheet read with a header row: the labels pandas gives the columns, and the rows
  below the header. Labels are strings.
\<close>

record table =
  columns :: "string list"
  body :: "cell list list"

text \<open>
  An opened workbook (\<open>pd.ExcelFile\<close>) is what the code can get out of it: the sheet names,
  and for a sheet the result of \<open>pd.read_excel(xl_file, sheet_name, header=None)\<close> and of
  \<open>pd.read_excel(xl_file, sheet_name, header=idx)\<close>, each of which may raise.
\<close>

record excel_file =
  sheet_names :: "string list"
  read_excel_raw :: "string \<Rightarrow> error + grid"
  read_excel_header :: "string \<Rightarrow> nat \<Rightarrow> error + table"

text \<open>\<open>df.columns = df.columns.str.strip().str.lower()\<close>.\<close>

definition clean_columns :: "table \<Rightarrow> table" where
  "clean_columns df = df\<lparr>columns := map (\<lambda>c. lower (strip c)) (columns df)\<rparr>"

definition iterrows :: "table \<Rightarrow> series list" where
  "iterrows df = map (\<lambda>cells. zip (columns df) cells) (body df)"

text \<open>The loop over the rows, with the current instrument type and the holdings so far.\<close>

fun rows_loop ::
    "string \<Rightarrow> string \<Rightarrow> string \<Rightarrow> series list \<Rightarrow> string \<Rightarrow> holding list \<Rightarrow>
     error + holding list" where
  "rows_loop amc_name sheet_name reporting_date [] current_instrument_type holdings =
     Inr holdings"
| "rows_loop amc_name sheet_name reporting_date (row # rows) current_instrument_type holdings =
     (case is_section_header row of
        Inl e \<Rightarrow> Inl e
      | Inr True \<Rightarrow>
          (case classify_instrument_type row of
             Inl e \<Rightarrow> Inl e
           | Inr t \<Rightarrow> rows_loop amc_name sheet_name reporting_date rows t holdings)
      | Inr False \<Rightarrow>
          (case extract_holding_from_row amc_name row sheet_name current_instrument_type
                  reporting_date of
             Inl e \<Rightarrow> Inl e
           | Inr None \<Rightarrow>
               rows_loop amc_name sheet_name reporting_date rows current_instrument_type holdings
           | Inr (Some holding) \<Rightarrow>
               rows_loop amc_name sheet_name reporting_date rows current_instrument_type
                 (holdings @ [holding])))"

text \<open>The body of the \<open>try\<close> of \<open>extract_holdings_from_sheet\<close>.\<close>

definition sheet_try :: "string \<Rightarrow> excel_file \<Rightarrow> string \<Rightarrow> error + holding list" where
  "sheet_try amc_name xl_file sheet_name =
     (case read_excel_raw xl_file sheet_name of
        Inl e \<Rightarrow> Inl e
      | Inr df \<Rightarrow>
          (let reporting_date = find_reporting_date df in
           case find_header_row df of
             None \<Rightarrow> Inr []
           | Some header_row_idx \<Rightarrow>
               (case read_excel_header xl_file sheet_name header_row_idx of
                  Inl e \<Rightarrow> Inl e
                | Inr df' \<Rightarrow>
                    rows_loop amc_name sheet_name reporting_date
                      (iterrows (clean_columns df')) ''Unknown'' [])))"

text \<open>\<open>except Exception\<close>: the sheet gives no holdings.\<close>

definition extract_holdings_from_sheet :: "string \<Rightarrow> excel_file \<Rightarrow> string \<Rightarrow> holding list" where
  "extract_holdings_from_sheet amc_name xl_file sheet_name =
     (case sheet_try amc_name xl_file sheet_name of
        Inl e \<Rightarrow> []
      | Inr holdings \<Rightarrow> holdings)"

definition sheet_skip_keywords :: "string list" where
  "sheet_skip_keywords = [''index'', ''summary'', ''contents'', ''note'', ''disclaimer'']"

definition scheme_sheets :: "string list \<Rightarrow> string list" where
  "scheme_sheets names = filter (\<lambda>sheet. \<not> any_in sheet_skip_keywords (lower sheet)) names"

fun sheets_loop :: "string \<Rightarrow> excel_file \<Rightarrow> string list \<Rightarrow> holding list \<Rightarrow> holding list" where
  "sheets_loop amc_name xl_file [] all_holdings = all_holdings"
| "sheets_loop amc_name xl_file (sheet_name # rest) all_holdings =
     (let holdings = extract_holdings_from_sheet amc_name xl_file sheet_name in
      if holdings \<noteq> [] then sheets_loop amc_name xl_file rest (all_holdings @ holdings)
      else sheets_loop amc_name xl_file rest all_holdings)"

text \<open>
  \<open>parse_excel_portfolios\<close>, from the result of \<open>pd.ExcelFile(excel_path)\<close> on. The
  consolidated dataset \<open>pd.DataFrame(all_holdings)\<close> is the list of its records; \<open>None\<close>
  is returned when the workbook cannot be opened.
\<close>

definition parse_excel_portfolios :: "string \<Rightarrow> error + excel_file \<Rightarrow> holding list option" where
  "parse_excel_portfolios amc_name opened =
     (case opened of
        Inl e \<Rightarrow> None
      | Inr xl_file \<Rightarrow>
          Some (sheets_loop amc_name xl_file (scheme_sheets (sheet_names xl_file)) []))"


section \<open>Validator\<close>

text \<open>
  The validator reads the consolidated table back from CSV. A row has the ten columns of
  the table, each of the type its field has in a holding record; \<open>None\<close> is a
  missing value. The data frame also knows which columns the file has. A float64 that is
  a number is a rational, and comparing two of them is exact.
\<close>

record csv_row =
  amc_name :: "string option"
  scheme_name :: "string option"
  instrument_name :: "string option"
  instrument_type :: "string option"
  isin :: "string option"
  industry_rating :: "string option"
  quantity :: "rat option"
  market_value_lakhs :: "rat option"
  percentage_of_portfolio :: "rat option"
  reporting_date :: "string option"

record dataframe =
  df_columns :: "string list"
  df_rows :: "csv_row list"

record validator =
  self_df :: dataframe
  self_issues :: "string list"

text \<open>\<open>__init__\<close>, once \<open>pd.read_csv\<close> has returned the data frame.\<close>

definition PortfolioDataValidator :: "dataframe \<Rightarrow> validator" where
  "PortfolioDataValidator d = \<lparr>self_df = d, self_issues = []\<rparr>"

text \<open>\<open>str(n)\<close> of a natural number, and \<open>str(xs)\<close> of a list of plain strings.\<close>

fun str_nat :: "nat \<Rightarrow> string" where
  "str_nat n = (if n < 10 then [digits ! n] else str_nat (n div 10) @ [digits ! (n mod 10)])"

declare str_nat.simps [simp del]

definition str_list :: "string list \<Rightarrow> string" where
  "str_list xs = ''['' @ join '', '' (map (\<lambda>x. [CHR 0x27] @ x @ [CHR 0x27]) xs) @ '']''"

definition required_fields :: "string list" where
  "required_fields =
     [''amc_name'', ''scheme_name'', ''instrument_name'', ''instrument_type'', ''reporting_date'']"

definition check_required_fields :: "validator \<Rightarrow> validator" where
  "check_required_fields v =
     (let missing = filter (\<lambda>f. f \<notin> set (df_columns (self_df v))) required_fields in
      if missing \<noteq> [] then
        v\<lparr>self_issues := self_issues v @ [''Missing required columns: '' @ str_list missing]\<rparr>
      else v)"

definition invalid_isins :: "dataframe \<Rightarrow> csv_row list" where
  "invalid_isins d =
     filter (\<lambda>r. case isin r of None \<Rightarrow> False | Some s \<Rightarrow> \<not> isin_match s) (df_rows d)"

text \<open>
  \<open>pd.read_csv\<close> types a column in which no row has text as float64, all of it missing,
  and \<open>self.df['isin'].str\<close> raises \<open>AttributeError\<close> on such a column. The columns of a
  file without rows have the type object, on which \<open>.str\<close> works.
\<close>

definition isin_without_text :: "dataframe \<Rightarrow> bool" where
  "isin_without_text d = (df_rows d \<noteq> [] \<and> list_all (\<lambda>r. isin r = None) (df_rows d))"

definition check_isin_format :: "validator \<Rightarrow> error + validator" where
  "check_isin_format v =
     (if ''isin'' \<notin> set (df_columns (self_df v)) then Inr v
      else if isin_without_text (self_df v) then Inl AttributeError
      else if 0 < length (invalid_isins (self_df v)) then
        Inr (v\<lparr>self_issues := self_issues v @
                 [''Found '' @ str_nat (length (invalid_isins (self_df v))) @
                  '' invalid ISIN codes'']\<rparr>)
      else Inr v)"

text \<open>A comparison with a missing value is false.\<close>

definition out_of_range :: "dataframe \<Rightarrow> csv_row list" where
  "out_of_range d =
     filter (\<lambda>r. case percentage_of_portfolio r of
                    None \<Rightarrow> False
                  | Some p \<Rightarrow> p < 0 \<or> 100 < p) (df_rows d)"

definition negative_values :: "dataframe \<Rightarrow> csv_row list" where
  "negative_values d =
     filter (\<lambda>r. case market_value_lakhs r of None \<Rightarrow> False | Some m \<Rightarrow> m < 0) (df_rows d)"

definition check_numeric_ranges :: "validator \<Rightarrow> validator" where
  "check_numeric_ranges v =
     (let v1 =
        (if ''percentage_of_portfolio'' \<in> set (df_columns (self_df v)) \<and>
            0 < length (out_of_range (self_df v))
         then v\<lparr>self_issues := self_issues v @
                  [''Found '' @ str_nat (length (out_of_range (self_df v))) @
                   '' holdings with invalid percentage'']\<rparr>
         else v)
      in
        if ''market_value_lakhs'' \<in> set (df_columns (self_df v1)) \<and>
           0 < length (negative_values (self_df v1))
        then v1\<lparr>self_issues := self_issues v1 @
                  [''Found '' @ str_nat (length (negative_values (self_df v1))) @
                   '' holdings with negative value'']\<rparr>
        else v1)"

text \<open>
  \<open>df.groupby('scheme_name')['percentage_of_portfolio'].sum()\<close>: one group for each
  scheme name that is not missing, and the sum of the group's percentages that are not
  missing, in the order of the rows. The sum is the float64 sum pandas computes, which is
  not the exact sum of the numbers: it is the parameter \<open>group_sum\<close>. pandas orders the
  groups by name; only their number reaches the issue list, and here they stand in the
  order \<open>remdups\<close> leaves them in.
\<close>

definition scheme_total :: "(rat list \<Rightarrow> rat) \<Rightarrow> dataframe \<Rightarrow> string \<Rightarrow> rat" where
  "scheme_total group_sum d scheme =
     group_sum (List.map_filter percentage_of_portfolio
                  (filter (\<lambda>r. scheme_name r = Some scheme) (df_rows d)))"

definition scheme_sums :: "(rat list \<Rightarrow> rat) \<Rightarrow> dataframe \<Rightarrow> (string \<times> rat) list" where
  "scheme_sums group_sum d =
     map (\<lambda>scheme. (scheme, scheme_total group_sum d scheme))
       (remdups (List.map_filter scheme_name (df_rows d)))"

definition outlier_schemes :: "(rat list \<Rightarrow> rat) \<Rightarrow> dataframe \<Rightarrow> (string \<times> rat) list" where
  "outlier_schemes group_sum d =
     filter (\<lambda>(scheme, total). total < 95 \<or> 105 < total) (scheme_sums group_sum d)"

text \<open>\<open>groupby('scheme_name')\<close> raises \<open>KeyError\<close> when the data frame has no such column.\<close>

definition check_portfolio_percentages ::
    "(rat list \<Rightarrow> rat) \<Rightarrow> validator \<Rightarrow> error + validator" where
  "check_portfolio_percentages group_sum v =
     (if ''percentage_of_portfolio'' \<notin> set (df_columns (self_df v)) then Inr v
      else if ''scheme_name'' \<notin> set (df_columns (self_df v)) then Inl KeyError
      else if 0 < length (outlier_schemes group_sum (self_df v)) then
        Inr (v\<lparr>self_issues := self_issues v @
                 [''Found '' @ str_nat (length (outlier_schemes group_sum (self_df v))) @
                  '' schemes with unusual portfolio sum'']\<rparr>)
      else Inr v)"

text \<open>
  \<open>df.duplicated(subset=['scheme_name', 'instrument_name'], keep=False)\<close> marks every row
  whose pair occurs in another row as well (two missing values count as equal), and
  raises \<open>KeyError\<close> when one of the two columns is not there.
\<close>

definition duplicates :: "dataframe \<Rightarrow> csv_row list" where
  "duplicates d =
     filter (\<lambda>r. 1 < length (filter (\<lambda>r'. scheme_name r' = scheme_name r \<and>
                                          instrument_name r' = instrument_name r) (df_rows d)))
       (df_rows d)"

definition check_duplicates :: "validator \<Rightarrow> error + validator" where
  "check_duplicates v =
     (if ''scheme_name'' \<notin> set (df_columns (self_df v)) \<or>
         ''instrument_name'' \<notin> set (df_columns (self_df v)) then Inl KeyError
      else if 0 < length (duplicates (self_df v)) then
        Inr (v\<lparr>self_issues := self_issues v @
                 [''Found '' @ str_nat (length (duplicates (self_df v))) @
                  '' duplicate holdings'']\<rparr>)
      else Inr v)"

text \<open>The missing-value report prints and changes nothing.\<close>

definition check_missing_values :: "validator \<Rightarrow> validator" where
  "check_missing_values v = v"

text \<open>
  The verdict \<open>print_summary\<close> prints: \<open>PASSED\<close> for ``All validation checks passed!'',
  \<open>NEEDS_REVIEW\<close> for ``Data quality: NEEDS REVIEW''.
\<close>

datatype verdict = PASSED | NEEDS_REVIEW

definition print_summary :: "validator \<Rightarrow> verdict" where
  "print_summary v = (if length (self_issues v) = 0 then PASSED else NEEDS_REVIEW)"

text \<open>The six checks in their order; the first that raises ends the run.\<close>

definition run_all_checks :: "(rat list \<Rightarrow> rat) \<Rightarrow> validator \<Rightarrow> error + validator \<times> verdict" where
  "run_all_checks group_sum v =
     (case check_isin_format (check_required_fields v) of
        Inl e \<Rightarrow> Inl e
      | Inr v2 \<Rightarrow>
          (case check_portfolio_percentages group_sum (check_numeric_ranges v2) of
             Inl e \<Rightarrow> Inl e
           | Inr v4 \<Rightarrow>
               (case check_duplicates v4 of
                  Inl e \<Rightarrow> Inl e
                | Inr v5 \<Rightarrow>
                    (let v6 = check_missing_values v5 in Inr (v6, print_summary v6)))))"


text \<open>What every record of a sheet satisfies.\<close>

abbreviation holding_ok :: "string \<Rightarrow> holding \<Rightarrow> bool" where
  "holding_ok sheet h \<equiv>
     h ''scheme_name'' = Some (PStr sheet) \<and>
     (\<exists>n. h ''instrument_name'' = Some (PStr n) \<and> n \<noteq> [] \<and> 3 < length (strip n) \<and>
          \<not> any_in skip_keywords (lower n))"


section \<open>Example inputs\<close>

text \<open>
  A sheet as it is read without a header: a title, an empty row, the header row, a
  section banner, one holding and the total.
\<close>

definition example_grid :: grid where
  "example_grid =
     [[Val ''Axis Mutual Fund - Monthly Portfolio, December 31, 2025'' None, NaN, NaN, NaN, NaN],
      [NaN, NaN, NaN, NaN, NaN],
      [Val ''Name of the Instrument'' None, Val ''ISIN'' None, Val ''Quantity'' None,
       Val ''Market Value (Rs Lakhs)'' None, Val ''% to Net Assets'' None],
      [Val ''Equity & Equity related'' None, NaN, NaN, NaN, NaN],
      [Val ''Reliance Industries Ltd'' None, Val ''INE002A01018'' None, Val ''100'' (Some 100),
       Val ''5000'' (Some 5000), Val ''4.2'' (Some (21 / 5))],
      [Val ''Total'' None, NaN, NaN, Val ''5000'' (Some 5000), Val ''4.2'' (Some (21 / 5))]]"

text \<open>The same sheet read with row 2 as its header.\<close>

definition example_table :: table where
  "example_table =
     \<lparr>columns = [''Name of the Instrument'', ''ISIN'', ''Quantity'',
                 ''Market Value (Rs Lakhs)'', ''% to Net Assets''],
      body = drop 3 example_grid\<rparr>"

text \<open>A workbook with an index sheet, two scheme sheets and a sheet that cannot be read.\<close>

definition example_workbook :: excel_file where
  "example_workbook =
     \<lparr>sheet_names = [''Index'', ''Axis Bluechip Fund'', ''Broken Sheet'', ''Axis Focused Fund''],
      read_excel_raw = (\<lambda>name. if name = ''Broken Sheet'' then Inl ReadError else Inr example_grid),
      read_excel_header = (\<lambda>name idx. if idx = 2 then Inr example_table else Inl ReadError)\<rparr>"

definition example_dataset :: "holding list" where
  "example_dataset =
     sheets_loop ''Axis Mutual Fund'' example_workbook
       (scheme_sheets (sheet_names example_workbook)) []"

definition banner_row :: series where
  "banner_row = [(''name of the instrument'', Val ''Equity & Equity related'' None),
                 (''isin'', NaN), (''quantity'', NaN)]"

definition example_row :: "string \<Rightarrow> string \<Rightarrow> rat \<Rightarrow> csv_row" where
  "example_row scheme name pct =
     \<lparr>amc_name = Some ''Axis Mutual Fund'', scheme_name = Some scheme,
      instrument_name = Some name, instrument_type = Some ''Equity'', isin = None,
      industry_rating = None, quantity = None, market_value_lakhs = None,
      percentage_of_portfolio = Some pct, reporting_date = Some ''2025-12-31''\<rparr>"

text \<open>
  Two schemes: the percentages of the first sum to 99.75, those of the second to 110. All
  of them are binary fractions, whose float64 sum is their exact sum.
\<close>

definition two_schemes :: dataframe where
  "two_schemes =
     \<lparr>df_columns = [''amc_name'', ''scheme_name'', ''instrument_name'', ''instrument_type'',
                    ''percentage_of_portfolio'', ''reporting_date''],
      df_rows = [example_row ''Axis Bluechip Fund'' ''Reliance Industries Ltd'' 60,
                 example_row ''Axis Focused Fund'' ''Infosys Ltd'' 70,
                 example_row ''Axis Bluechip Fund'' ''HDFC Bank Ltd'' (159 / 4),
                 example_row ''Axis Focused Fund'' ''TCS Ltd'' 40]\<rparr>"


text \<open>The five required columns and nothing else; no pair of scheme and instrument repeats.\<close>

definition five_columns :: dataframe where
  "five_columns =
     \<lparr>df_columns = [''amc_name'', ''scheme_name'', ''instrument_name'', ''instrument_type'',
                    ''reporting_date''],
      df_rows = [example_row ''Axis Bluechip Fund'' ''Reliance Industries Ltd'' 60,
                 example_row ''Axis Bluechip Fund'' ''HDFC Bank Ltd'' 40]\<rparr>"

text \<open>
  A row whose column is named for a value and for a share of the net assets, with no
  currency word in the name, and the same row under the usual name of the percentage column.
\<close>

definition value_percent_row :: series where
  "value_percent_row =
     [(''name of the instrument'', Val ''Reliance Industries Ltd'' None),
      (''value (% of net assets)'', Val ''4.2'' (Some (21 / 5)))]"

definition percent_row :: series where
  "percent_row =
     [(''name of the instrument'', Val ''Reliance Industries Ltd'' None),
      (''% to net assets'', Val ''4.2'' (Some (21 / 5)))]"

text \<open>The field a row gives a holding, read off the result of the extractor.\<close>

definition extracted_field :: "series \<Rightarrow> string \<Rightarrow> pyval option" where
  "extracted_field row key =
     (case extract_holding_from_row ''Axis Mutual Fund'' row ''Axis Bluechip Fund'' ''Equity''
             ''2025-12-31'' of
        Inr (Some holding) \<Rightarrow> holding key
      | _ \<Rightarrow> None)"


section \<open>The header row\<close>

lemma find_header_loop_Some:
  "find_header_loop k rows = Some i \<longleftrightarrow>
     k \<le> i \<and> i - k < length rows \<and> 2 \<le> keyword_matches (rows ! (i - k)) \<and>
     (\<forall>j < i - k. keyword_matches (rows ! j) < 2)"
proof (induction rows arbitrary: k)
  case Nil
  then show ?case by simp
next
  case (Cons row rows)
  show ?case
  proof (cases "2 \<le> keyword_matches row")
    case True
    show ?thesis
    proof (cases "i = k")
      case eq: True
      then show ?thesis using True by simp
    next
      case neq: False
      have "\<not> (k \<le> i \<and> (\<forall>j < i - k. keyword_matches ((row # rows) ! j) < 2))"
      proof
        assume h: "k \<le> i \<and> (\<forall>j < i - k. keyword_matches ((row # rows) ! j) < 2)"
        with neq have "0 < i - k" by simp
        with h have "keyword_matches ((row # rows) ! 0) < 2" by blast
        with True show False by simp
      qed
      then show ?thesis using True neq by auto
    qed
  next
    case False
    have "find_header_loop k (row # rows) = Some i \<longleftrightarrow> find_header_loop (Suc k) rows = Some i"
      using False by simp
    also have "\<dots> \<longleftrightarrow> Suc k \<le> i \<and> i - Suc k < length rows \<and>
        2 \<le> keyword_matches (rows ! (i - Suc k)) \<and>
        (\<forall>j < i - Suc k. keyword_matches (rows ! j) < 2)"
      by (rule Cons.IH)
    also have "\<dots> \<longleftrightarrow> k \<le> i \<and> i - k < length (row # rows) \<and>
        2 \<le> keyword_matches ((row # rows) ! (i - k)) \<and>
        (\<forall>j < i - k. keyword_matches ((row # rows) ! j) < 2)"
    proof (cases "i \<le> k")
      case True
      then show ?thesis using False by auto
    next
      case gt: False
      then obtain d where d: "i - k = Suc d" "i - Suc k = d"
        by (metis Suc_diff_Suc diff_Suc_eq_diff_pred not_le diff_Suc_1)
      have "(\<forall>j < Suc d. keyword_matches ((row # rows) ! j) < 2) \<longleftrightarrow>
            (\<forall>j < d. keyword_matches (rows ! j) < 2)"
        using False by (auto simp: less_Suc_eq_0_disj)
      then show ?thesis using gt d by auto
    qed
    finally show ?thesis .
  qed
qed

lemma find_header_loop_None:
  "find_header_loop k rows = None \<longleftrightarrow> (\<forall>j < length rows. keyword_matches (rows ! j) < 2)"
  by (induction rows arbitrary: k) (auto simp: less_Suc_eq_0_disj not_le)

lemma distinct_header_keywords: "distinct header_keywords"
  by (simp add: header_keywords_def)

text \<open>The count the code takes is the number of distinct keywords that occur in the text.\<close>

lemma keyword_matches_card:
  "keyword_matches row = card {kw \<in> set header_keywords. str_in kw (row_text row)}"
proof -
  have "card {kw \<in> set header_keywords. str_in kw (row_text row)} =
        card (set (filter (\<lambda>kw. str_in kw (row_text row)) header_keywords))"
    by simp
  also have "\<dots> = length (filter (\<lambda>kw. str_in kw (row_text row)) header_keywords)"
    by (rule distinct_card) (simp add: distinct_header_keywords)
  finally show ?thesis by (simp add: keyword_matches_def)
qed

text \<open>
  Claim C2. \<open>find_header_row\<close> returns row \<open>i\<close> exactly when \<open>i\<close> is among the first
  \<open>min 20 (length df)\<close> rows, the text of row \<open>i\<close> (its cells that are not missing,
  lower-cased and joined by single spaces) contains at least two of the six header keywords,
  and no earlier row does; it returns \<open>None\<close> exactly when none of those rows does.
\<close>

theorem find_header_row_first_match:
  "(find_header_row df = Some i \<longleftrightarrow>
      i < min 20 (length df) \<and>
      2 \<le> card {kw \<in> set header_keywords. str_in kw (row_text (df ! i))} \<and>
      (\<forall>j < i. card {kw \<in> set header_keywords. str_in kw (row_text (df ! j))} < 2)) \<and>
   (find_header_row df = None \<longleftrightarrow>
      (\<forall>j < min 20 (length df).
         card {kw \<in> set header_keywords. str_in kw (row_text (df ! j))} < 2))"
proof -
  let ?n = "min 20 (length df)"
  have len: "length (take ?n df) = ?n" by simp
  have nth: "\<And>j. j < ?n \<Longrightarrow> take ?n df ! j = df ! j" by simp
  have "find_header_row df = Some i \<longleftrightarrow>
      i < ?n \<and> 2 \<le> keyword_matches (df ! i) \<and> (\<forall>j < i. keyword_matches (df ! j) < 2)"
    unfolding find_header_row_def find_header_loop_Some
    using nth len by (auto simp del: length_take nth_take)
  moreover have "find_header_row df = None \<longleftrightarrow> (\<forall>j < ?n. keyword_matches (df ! j) < 2)"
    unfolding find_header_row_def find_header_loop_None
    using nth len by (auto simp del: length_take nth_take)
  ultimately show ?thesis by (simp only: keyword_matches_card)
qed

theorem find_header_row_first_match_witness:
  "find_header_row example_grid = Some 2 \<and>
   2 \<le> card {kw \<in> set header_keywords. str_in kw (row_text (example_grid ! 2))} \<and>
   find_header_row (take 2 example_grid) = None"
proof -
  have a: "find_header_row example_grid = Some 2" by code_simp
  have b: "find_header_row (take 2 example_grid) = None" by code_simp
  from a b find_header_row_first_match [of example_grid 2] show ?thesis by blast
qed


section \<open>Section banners\<close>

lemma combined_nonempty:
  "row \<noteq> [] \<Longrightarrow>
   combined row =
     Inr (cell_lower (snd (row ! 0)) @ '' '' @
          (if 1 < length row then cell_lower (snd (row ! 1)) else []))"
  by (induction row rule: combined.induct) simp_all

lemma any_in_iff: "any_in kws s \<longleftrightarrow> (\<exists>kw \<in> set kws. str_in kw s)"
  by (simp add: any_in_def list_ex_iff)

lemma has_isin_iff:
  "has_isin row \<longleftrightarrow> (\<exists>cell \<in> set (map snd row). notna cell \<and> isin_match (str cell))"
  by (simp add: has_isin_def list_ex_iff)

lemma has_isin_insert:
  "isin_match s \<Longrightarrow> has_isin (take k row @ (l, Val s f) # drop k row)"
  by (auto simp: has_isin_def list_ex_iff)

lemma is_section_header_has_isin:
  "has_isin row \<Longrightarrow> row \<noteq> [] \<Longrightarrow> is_section_header row = Inr False"
  by (simp add: is_section_header_def combined_nonempty)

text \<open>
  Claim C3. For a row with at least one cell, \<open>is_section_header\<close> returns true exactly
  when the text of the first two cells (each lower-cased, empty when missing, with one
  space between them) contains a banner keyword and no cell of the row matches the ISIN
  pattern; and a row it accepts is rejected once a cell matching the ISIN pattern is
  inserted anywhere. (On a row without cells the code raises \<open>IndexError\<close>.)
\<close>

theorem is_section_header_iff:
  assumes "row \<noteq> []"
  shows "is_section_header row =
           Inr ((\<exists>kw \<in> set section_keywords.
                   str_in kw (cell_lower (snd (row ! 0)) @ '' '' @
                              (if 1 < length row then cell_lower (snd (row ! 1)) else []))) \<and>
                \<not> (\<exists>cell \<in> set (map snd row). notna cell \<and> isin_match (str cell))) \<and>
         (is_section_header row = Inr True \<longrightarrow> isin_match s \<longrightarrow>
            is_section_header (take k row @ (l, Val s f) # drop k row) = Inr False)"
proof (intro conjI impI)
  show "is_section_header row =
           Inr ((\<exists>kw \<in> set section_keywords.
                   str_in kw (cell_lower (snd (row ! 0)) @ '' '' @
                              (if 1 < length row then cell_lower (snd (row ! 1)) else []))) \<and>
                \<not> (\<exists>cell \<in> set (map snd row). notna cell \<and> isin_match (str cell)))"
    using assms
    by (simp add: is_section_header_def combined_nonempty any_in_iff has_isin_iff del: set_map)
next
  assume "isin_match s"
  then have "has_isin (take k row @ (l, Val s f) # drop k row)"
    by (rule has_isin_insert)
  then show "is_section_header (take k row @ (l, Val s f) # drop k row) = Inr False"
    by (rule is_section_header_has_isin) simp
qed

theorem is_section_header_iff_witness:
  "is_section_header banner_row = Inr True \<and>
   is_section_header (take 1 banner_row @ (''isin'', Val ''INE002A01018'' None) # drop 1 banner_row)
     = Inr False"
proof -
  have ne: "banner_row \<noteq> []" by (simp add: banner_row_def)
  have t: "is_section_header banner_row = Inr True" by code_simp
  have m: "isin_match ''INE002A01018''" by code_simp
  from t m is_section_header_iff
             [OF ne, where s = "''INE002A01018''" and k = 1 and l = "''isin''" and f = None]
  show ?thesis by simp
qed

text \<open>
  Claim C4. On a row with at least one cell \<open>classify_instrument_type\<close> returns one of
  Equity, Debt, Money Market and Other, never Unknown: Equity when an equity keyword occurs
  in the text of the first two cells, else Debt when a debt keyword occurs, else Money Market
  when a money-market keyword occurs, else Other.
\<close>

theorem classify_instrument_type_total:
  assumes "row \<noteq> []"
  shows "\<exists>t text. combined row = Inr text \<and> classify_instrument_type row = Inr t \<and>
           t \<in> {''Equity'', ''Debt'', ''Money Market'', ''Other''} \<and> t \<noteq> ''Unknown'' \<and>
           (t = ''Equity'' \<longleftrightarrow> any_in equity_keywords text) \<and>
           (t = ''Debt'' \<longleftrightarrow> \<not> any_in equity_keywords text \<and> any_in debt_keywords text) \<and>
           (t = ''Money Market'' \<longleftrightarrow>
              \<not> any_in equity_keywords text \<and> \<not> any_in debt_keywords text \<and>
              any_in money_market_keywords text) \<and>
           (t = ''Other'' \<longleftrightarrow>
              \<not> any_in equity_keywords text \<and> \<not> any_in debt_keywords text \<and>
              \<not> any_in money_market_keywords text)"
proof -
  from assms obtain tx where c: "combined row = Inr tx"
    by (auto simp: combined_nonempty)
  show ?thesis
    unfolding classify_instrument_type_def c by simp
qed

theorem classify_instrument_type_total_witness:
  "classify_instrument_type banner_row = Inr ''Equity''"
proof -
  have ne: "banner_row \<noteq> []" by (simp add: banner_row_def)
  have c: "combined banner_row = Inr ''equity & equity related ''" by code_simp
  have a: "any_in equity_keywords ''equity & equity related ''" by code_simp
  from classify_instrument_type_total [OF ne] c a show ?thesis by auto
qed


section \<open>The reporting date\<close>

text \<open>
  Claim C6. \<open>find_reporting_date\<close> returns the one date 2025-12-31 for every grid, whether
  or not a cell of the first ten rows matches the date pattern.
\<close>

theorem find_reporting_date_constant: "find_reporting_date df = ''2025-12-31''"
  by (simp add: find_reporting_date_def)

theorem find_reporting_date_constant_witness:
  "date_match (str (example_grid ! 0 ! 0)) \<and>
   find_reporting_date example_grid = ''2025-12-31'' \<and>
   \<not> date_match (str (Val ''Portfolio Statement'' None)) \<and>
   find_reporting_date [[Val ''Portfolio Statement'' None]] = ''2025-12-31''"
proof -
  have a: "date_match (str (example_grid ! 0 ! 0))" by code_simp
  have b: "\<not> date_match (str (Val ''Portfolio Statement'' None))" by code_simp
  from a b find_reporting_date_constant [of example_grid]
    find_reporting_date_constant [of "[[Val ''Portfolio Statement'' None]]"]
  show ?thesis by blast
qed


section \<open>Records of the consolidated dataset\<close>

lemma set_field_scheme_name:
  "set_field col_name v h ''scheme_name'' = h ''scheme_name''"
  by (simp add: set_field_def Let_def)

lemma extract_fields_scheme_name:
  "extract_fields row cols h = Inr h' \<Longrightarrow> h' ''scheme_name'' = h ''scheme_name''"
  by (induction cols arbitrary: h) (auto simp: set_field_scheme_name split: if_splits)

lemma keep_holding_Some:
  assumes "keep_holding h = Some h'"
  shows "h' = h \<and>
         (\<exists>n. h ''instrument_name'' = Some (PStr n) \<and> n \<noteq> [] \<and> 3 < length (strip n) \<and>
              \<not> any_in skip_keywords (lower n))"
  using assms
  by (auto simp: keep_holding_def Let_def split: option.splits pyval.splits if_splits)

lemma extract_holding_from_row_ok:
  assumes "extract_holding_from_row amc row sheet t date = Inr (Some h)"
  shows "holding_ok sheet h"
proof -
  from assms obtain h0 where
    f: "extract_fields row row
          [''amc_name'' \<mapsto> PStr amc, ''scheme_name'' \<mapsto> PStr sheet,
           ''instrument_type'' \<mapsto> PStr t, ''reporting_date'' \<mapsto> PStr date] = Inr h0"
    and k: "keep_holding h0 = Some h"
    by (auto simp: extract_holding_from_row_def split: if_splits sum.splits)
  from extract_fields_scheme_name [OF f] have "h0 ''scheme_name'' = Some (PStr sheet)"
    by simp
  with keep_holding_Some [OF k] show ?thesis
    by auto
qed

lemma rows_loop_ok:
  assumes "rows_loop amc sheet date rows cur acc = Inr hs"
    and "\<forall>h \<in> set acc. holding_ok sheet h"
  shows "\<forall>h \<in> set hs. holding_ok sheet h"
  using assms
proof (induction rows arbitrary: cur acc)
  case Nil
  then show ?case by simp
next
  case (Cons row rows)
  show ?case
  proof (cases "is_section_header row")
    case (Inl e)
    with Cons.prems show ?thesis by simp
  next
    case (Inr b)
    show ?thesis
    proof (cases b)
      case True
      with Inr Cons.prems obtain t where "rows_loop amc sheet date rows t acc = Inr hs"
        by (auto split: sum.splits)
      with Cons.IH Cons.prems(2) show ?thesis by blast
    next
      case False
      show ?thesis
      proof (cases "extract_holding_from_row amc row sheet cur date")
        case (Inl e)
        with False Inr Cons.prems show ?thesis by simp
      next
        case r: (Inr ho)
        show ?thesis
        proof (cases ho)
          case None
          with r False Inr Cons.prems have "rows_loop amc sheet date rows cur acc = Inr hs"
            by simp
          with Cons.IH Cons.prems(2) show ?thesis by blast
        next
          case (Some h)
          with r False Inr Cons.prems
          have l: "rows_loop amc sheet date rows cur (acc @ [h]) = Inr hs"
            by simp
          from r Some have "holding_ok sheet h"
            by (auto dest: extract_holding_from_row_ok)
          with Cons.prems(2) have "\<forall>x \<in> set (acc @ [h]). holding_ok sheet x" by simp
          with Cons.IH l show ?thesis by blast
        qed
      qed
    qed
  qed
qed

lemma sheet_try_ok:
  assumes "sheet_try amc xl sheet = Inr hs" and "h \<in> set hs"
  shows "holding_ok sheet h"
proof (cases "read_excel_raw xl sheet")
  case (Inl e)
  with assms show ?thesis by (simp add: sheet_try_def)
next
  case raw: (Inr g)
  show ?thesis
  proof (cases "find_header_row g")
    case None
    with raw assms show ?thesis by (simp add: sheet_try_def)
  next
    case (Some idx)
    show ?thesis
    proof (cases "read_excel_header xl sheet idx")
      case (Inl e)
      with Some raw assms show ?thesis by (simp add: sheet_try_def)
    next
      case (Inr tbl)
      with Some raw assms(1)
      have "rows_loop amc sheet (find_reporting_date g) (iterrows (clean_columns tbl))
              ''Unknown'' [] = Inr hs"
        by (simp add: sheet_try_def)
      from rows_loop_ok [OF this] assms(2) show ?thesis by simp
    qed
  qed
qed

lemma extract_holdings_from_sheet_ok:
  "h \<in> set (extract_holdings_from_sheet amc xl sheet) \<Longrightarrow> holding_ok sheet h"
  unfolding extract_holdings_from_sheet_def
  by (cases "sheet_try amc xl sheet") (simp_all add: sheet_try_ok)

lemma sheets_loop_concat:
  "sheets_loop amc xl names acc =
     acc @ concat (map (extract_holdings_from_sheet amc xl) names)"
  by (induction names arbitrary: acc) (simp_all add: Let_def)

lemma parse_excel_portfolios_concat:
  "parse_excel_portfolios amc (Inr xl) =
     Some (concat (map (extract_holdings_from_sheet amc xl) (scheme_sheets (sheet_names xl))))"
  by (simp add: parse_excel_portfolios_def sheets_loop_concat)

text \<open>
  Claim C1. Every record of the dataset \<open>parse_excel_portfolios\<close> returns has a string
  under \<open>scheme_name\<close> and, under \<open>instrument_name\<close>, a string that is not empty, is
  longer than three characters once stripped, and in lower case contains none of the noise
  keywords.
\<close>

theorem consolidated_records_valid:
  assumes "parse_excel_portfolios amc opened = Some dataset"
    and "h \<in> set dataset"
  shows "\<exists>sheet n. h ''scheme_name'' = Some (PStr sheet) \<and>
           h ''instrument_name'' = Some (PStr n) \<and> n \<noteq> [] \<and> 3 < length (strip n) \<and>
           (\<forall>kw \<in> set skip_keywords. \<not> str_in kw (lower n))"
proof -
  from assms(1) obtain xl where o: "opened = Inr xl"
    by (cases opened) (simp_all add: parse_excel_portfolios_def)
  with assms obtain sheet where "h \<in> set (extract_holdings_from_sheet amc xl sheet)"
    by (auto simp: parse_excel_portfolios_concat)
  then have "holding_ok sheet h" by (rule extract_holdings_from_sheet_ok)
  then show ?thesis
    by (auto simp: any_in_def list_ex_iff)
qed

theorem consolidated_records_valid_witness:
  "length example_dataset = 2 \<and>
   (\<exists>sheet n. (example_dataset ! 0) ''scheme_name'' = Some (PStr sheet) \<and>
      (example_dataset ! 0) ''instrument_name'' = Some (PStr n) \<and> n \<noteq> [] \<and>
      3 < length (strip n) \<and> (\<forall>kw \<in> set skip_keywords. \<not> str_in kw (lower n)))"
proof -
  have p: "parse_excel_portfolios ''Axis Mutual Fund'' (Inr example_workbook) = Some example_dataset"
    by (simp add: parse_excel_portfolios_def example_dataset_def)
  have l: "length example_dataset = 2" by code_simp
  then have m: "example_dataset ! 0 \<in> set example_dataset" by simp
  from l consolidated_records_valid [OF p m] show ?thesis by blast
qed

text \<open>
  Claim C7. A sheet whose processing raises (reading it fails, or anything else in the
  \<open>try\<close> raises), or in which no header row is found, gives no holdings, and the dataset
  is what the sheets before it and the sheets after it give, each as if the failing sheet
  were not there.
\<close>

theorem sheet_failure_isolated:
  assumes names: "sheet_names xl = before @ s # after"
    and fails: "read_excel_raw xl s = Inl e \<or> sheet_try amc xl s = Inl e \<or>
                (\<exists>g. read_excel_raw xl s = Inr g \<and> find_header_row g = None)"
  shows "extract_holdings_from_sheet amc xl s = [] \<and>
         parse_excel_portfolios amc (Inr xl) =
           Some (concat (map (extract_holdings_from_sheet amc xl) (scheme_sheets before)) @
                 concat (map (extract_holdings_from_sheet amc xl) (scheme_sheets after)))"
proof -
  from fails have empty: "extract_holdings_from_sheet amc xl s = []"
    by (auto simp: extract_holdings_from_sheet_def sheet_try_def)
  then show ?thesis
    by (simp add: parse_excel_portfolios_concat names scheme_sheets_def)
qed

theorem sheet_failure_isolated_witness:
  "extract_holdings_from_sheet ''Axis Mutual Fund'' example_workbook ''Broken Sheet'' = [] \<and>
   parse_excel_portfolios ''Axis Mutual Fund'' (Inr example_workbook) =
     Some (concat (map (extract_holdings_from_sheet ''Axis Mutual Fund'' example_workbook)
                    (scheme_sheets [''Index'', ''Axis Bluechip Fund''])) @
           concat (map (extract_holdings_from_sheet ''Axis Mutual Fund'' example_workbook)
                    (scheme_sheets [''Axis Focused Fund'']))) \<and>
   map (\<lambda>h. h ''scheme_name'') example_dataset =
     [Some (PStr ''Axis Bluechip Fund''), Some (PStr ''Axis Focused Fund'')]"
proof -
  have r: "map (\<lambda>h. h ''scheme_name'') example_dataset =
     [Some (PStr ''Axis Bluechip Fund''), Some (PStr ''Axis Focused Fund'')]"
    by code_simp
  have n: "sheet_names example_workbook =
             [''Index'', ''Axis Bluechip Fund''] @ ''Broken Sheet'' # [''Axis Focused Fund'']"
    by (simp add: example_workbook_def)
  have f: "read_excel_raw example_workbook ''Broken Sheet'' = Inl ReadError"
    by (simp add: example_workbook_def)
  from sheet_failure_isolated [OF n disjI1, OF f] r show ?thesis by simp
qed


section \<open>Columns named for a value and a percentage\<close>

text \<open>
  Claim C5. The column name \<open>value (% of net assets)\<close> contains \<open>value\<close>, \<open>%\<close> and
  \<open>net assets\<close>, none of \<open>rs\<close>, \<open>lakhs\<close>, \<open>amount\<close>, and nothing of the earlier rules.
  The extractor enters the branch of the market value for it, stores nothing there, and
  never reaches the branch of the percentage: the holding has no
  \<open>percentage_of_portfolio\<close>. Under the name \<open>% to net assets\<close> the same cell is stored.
\<close>

theorem value_percent_column_ignored:
  "any_in [''market'', ''fair value'', ''value''] (lower ''value (% of net assets)'') \<and>
   str_in ''%'' (lower ''value (% of net assets)'') \<and>
   str_in ''net assets'' (lower ''value (% of net assets)'') \<and>
   \<not> any_in [''rs'', ''lakhs'', ''amount''] (lower ''value (% of net assets)'') \<and>
   \<not> any_in [''name of the instrument'', ''name'', ''security'', ''isin'', ''industry'',
              ''rating'', ''quantity''] (lower ''value (% of net assets)'') \<and>
   extracted_field value_percent_row ''instrument_name'' = Some (PStr ''Reliance Industries Ltd'') \<and>
   extracted_field value_percent_row ''percentage_of_portfolio'' = None \<and>
   extracted_field value_percent_row ''market_value_lakhs'' = None \<and>
   extracted_field percent_row ''percentage_of_portfolio'' = Some (PFloat (21 / 5))"
  by code_simp


section \<open>The portfolio sum of a scheme\<close>

lemma set_map_filter_iff:
  "y \<in> set (List.map_filter f xs) \<longleftrightarrow> (\<exists>x \<in> set xs. f x = Some y)"
  by (induction xs) (auto split: option.splits)

lemma set_scheme_sums:
  "(s, t) \<in> set (scheme_sums g d) \<longleftrightarrow>
     (\<exists>r \<in> set (df_rows d). scheme_name r = Some s) \<and> t = scheme_total g d s"
proof -
  have "(s, t) \<in> set (scheme_sums g d) \<longleftrightarrow>
          s \<in> set (List.map_filter scheme_name (df_rows d)) \<and> t = scheme_total g d s"
    by (auto simp: scheme_sums_def)
  then show ?thesis by (simp add: set_map_filter_iff)
qed

lemma set_outlier_schemes:
  "(s, t) \<in> set (outlier_schemes g d) \<longleftrightarrow>
     (\<exists>r \<in> set (df_rows d). scheme_name r = Some s) \<and> t = scheme_total g d s \<and>
     (t < 95 \<or> 105 < t)"
  unfolding outlier_schemes_def by (auto simp: set_scheme_sums)

lemma distinct_scheme_sums: "distinct (map fst (scheme_sums g d))"
  by (simp add: scheme_sums_def comp_def)

lemma distinct_outlier_schemes: "distinct (map fst (outlier_schemes g d))"
  unfolding outlier_schemes_def
  by (rule distinct_map_filter) (rule distinct_scheme_sums)

lemma length_outlier_schemes:
  "length (outlier_schemes g d) =
     card {s. (\<exists>r \<in> set (df_rows d). scheme_name r = Some s) \<and>
              (scheme_total g d s < 95 \<or> 105 < scheme_total g d s)}"
proof -
  have "length (outlier_schemes g d) = length (map fst (outlier_schemes g d))" by simp
  also have "\<dots> = card (set (map fst (outlier_schemes g d)))"
    by (rule distinct_card [symmetric]) (rule distinct_outlier_schemes)
  also have "set (map fst (outlier_schemes g d)) =
      {s. (\<exists>r \<in> set (df_rows d). scheme_name r = Some s) \<and>
          (scheme_total g d s < 95 \<or> 105 < scheme_total g d s)}"
  proof (rule set_eqI)
    fix s
    have "s \<in> set (map fst (outlier_schemes g d)) \<longleftrightarrow> (\<exists>t. (s, t) \<in> set (outlier_schemes g d))"
      by force
    then show "s \<in> set (map fst (outlier_schemes g d)) \<longleftrightarrow>
      s \<in> {s. (\<exists>r \<in> set (df_rows d). scheme_name r = Some s) \<and>
               (scheme_total g d s < 95 \<or> 105 < scheme_total g d s)}"
      by (simp add: set_outlier_schemes)
  qed
  finally show ?thesis .
qed

text \<open>
  Claim C8. With the columns \<open>percentage_of_portfolio\<close> and \<open>scheme_name\<close> there, the
  portfolio-sum check groups the rows by scheme name and takes the float64 sum of the
  percentages of each scheme; a scheme is an outlier exactly when this sum is below 95 or
  above 105; and the check adds to the issue list one issue, which gives the number of
  schemes that are outliers, exactly when there is an outlier, and nothing otherwise.
\<close>

theorem portfolio_sum_outliers:
  assumes "''percentage_of_portfolio'' \<in> set (df_columns (self_df v))"
    and "''scheme_name'' \<in> set (df_columns (self_df v))"
  shows "check_portfolio_percentages group_sum v =
           Inr (if outlier_schemes group_sum (self_df v) = [] then v
                else v\<lparr>self_issues := self_issues v @
                         [''Found '' @ str_nat (length (outlier_schemes group_sum (self_df v))) @
                          '' schemes with unusual portfolio sum'']\<rparr>) \<and>
         ((s, t) \<in> set (outlier_schemes group_sum (self_df v)) \<longleftrightarrow>
            (\<exists>r \<in> set (df_rows (self_df v)). scheme_name r = Some s) \<and>
            t = group_sum (List.map_filter percentage_of_portfolio
                             (filter (\<lambda>r. scheme_name r = Some s) (df_rows (self_df v)))) \<and>
            (t < 95 \<or> 105 < t)) \<and>
         length (outlier_schemes group_sum (self_df v)) =
           card {s. (\<exists>r \<in> set (df_rows (self_df v)). scheme_name r = Some s) \<and>
                    (group_sum (List.map_filter percentage_of_portfolio
                       (filter (\<lambda>r. scheme_name r = Some s) (df_rows (self_df v)))) < 95 \<or>
                     105 < group_sum (List.map_filter percentage_of_portfolio
                       (filter (\<lambda>r. scheme_name r = Some s) (df_rows (self_df v)))))}"
proof (intro conjI)
  show "check_portfolio_percentages group_sum v =
           Inr (if outlier_schemes group_sum (self_df v) = [] then v
                else v\<lparr>self_issues := self_issues v @
                         [''Found '' @ str_nat (length (outlier_schemes group_sum (self_df v))) @
                          '' schemes with unusual portfolio sum'']\<rparr>)"
    using assms by (simp add: check_portfolio_percentages_def)
  show "(s, t) \<in> set (outlier_schemes group_sum (self_df v)) \<longleftrightarrow>
            (\<exists>r \<in> set (df_rows (self_df v)). scheme_name r = Some s) \<and>
            t = group_sum (List.map_filter percentage_of_portfolio
                             (filter (\<lambda>r. scheme_name r = Some s) (df_rows (self_df v)))) \<and>
            (t < 95 \<or> 105 < t)"
    by (simp add: set_outlier_schemes scheme_total_def)
  show "length (outlier_schemes group_sum (self_df v)) =
           card {s. (\<exists>r \<in> set (df_rows (self_df v)). scheme_name r = Some s) \<and>
                    (group_sum (List.map_filter percentage_of_portfolio
                       (filter (\<lambda>r. scheme_name r = Some s) (df_rows (self_df v)))) < 95 \<or>
                     105 < group_sum (List.map_filter percentage_of_portfolio
                       (filter (\<lambda>r. scheme_name r = Some s) (df_rows (self_df v)))))}"
    by (simp add: length_outlier_schemes scheme_total_def)
qed

theorem portfolio_sum_outliers_witness:
  "scheme_sums sum_list two_schemes =
     [(''Axis Bluechip Fund'', 399 / 4), (''Axis Focused Fund'', 110)] \<and>
   outlier_schemes sum_list two_schemes = [(''Axis Focused Fund'', 110)] \<and>
   check_portfolio_percentages sum_list (PortfolioDataValidator two_schemes) =
     Inr \<lparr>self_df = two_schemes,
          self_issues = [''Found 1 schemes with unusual portfolio sum'']\<rparr>"
proof -
  have c1: "''percentage_of_portfolio'' \<in> set (df_columns (self_df (PortfolioDataValidator two_schemes)))"
    by (simp add: PortfolioDataValidator_def two_schemes_def)
  have c2: "''scheme_name'' \<in> set (df_columns (self_df (PortfolioDataValidator two_schemes)))"
    by (simp add: PortfolioDataValidator_def two_schemes_def)
  have s: "scheme_sums sum_list two_schemes =
             [(''Axis Bluechip Fund'', 399 / 4), (''Axis Focused Fund'', 110)]"
    by code_simp
  have o: "outlier_schemes sum_list two_schemes = [(''Axis Focused Fund'', 110)]"
    by code_simp
  have n: "str_nat (Suc 0) = ''1''" by code_simp
  from portfolio_sum_outliers [OF c1 c2, THEN conjunct1, of sum_list] s o show ?thesis
    by (simp add: PortfolioDataValidator_def n)
qed


section \<open>The validator\<close>

text \<open>What each check adds to the issue list, as a function of the data frame.\<close>

lemma check_required_fields_eq:
  "check_required_fields \<lparr>self_df = d, self_issues = start\<rparr> =
     \<lparr>self_df = d,
      self_issues = start @
        (if set required_fields \<subseteq> set (df_columns d) then []
         else [''Missing required columns: '' @
               str_list (filter (\<lambda>f. f \<notin> set (df_columns d)) required_fields)])\<rparr>"
proof -
  have "filter (\<lambda>f. f \<notin> set (df_columns d)) required_fields = [] \<longleftrightarrow>
        set required_fields \<subseteq> set (df_columns d)"
    by (auto simp: filter_empty_conv)
  then show ?thesis
    by (simp add: check_required_fields_def Let_def)
qed

lemma check_isin_format_eq:
  "check_isin_format \<lparr>self_df = d, self_issues = start\<rparr> =
     (if ''isin'' \<in> set (df_columns d) \<and> isin_without_text d then Inl AttributeError
      else Inr \<lparr>self_df = d,
                self_issues = start @
                  (if ''isin'' \<in> set (df_columns d) \<and> invalid_isins d \<noteq> []
                   then [''Found '' @ str_nat (length (invalid_isins d)) @ '' invalid ISIN codes'']
                   else [])\<rparr>)"
  by (simp add: check_isin_format_def)

lemma check_numeric_ranges_eq:
  "check_numeric_ranges \<lparr>self_df = d, self_issues = start\<rparr> =
     \<lparr>self_df = d,
      self_issues = start @
        (if ''percentage_of_portfolio'' \<in> set (df_columns d) \<and> out_of_range d \<noteq> []
         then [''Found '' @ str_nat (length (out_of_range d)) @
               '' holdings with invalid percentage'']
         else []) @
        (if ''market_value_lakhs'' \<in> set (df_columns d) \<and> negative_values d \<noteq> []
         then [''Found '' @ str_nat (length (negative_values d)) @
               '' holdings with negative value'']
         else [])\<rparr>"
  by (simp add: check_numeric_ranges_def Let_def)

lemma check_portfolio_percentages_eq:
  "check_portfolio_percentages g \<lparr>self_df = d, self_issues = start\<rparr> =
     (if ''percentage_of_portfolio'' \<in> set (df_columns d) \<and> ''scheme_name'' \<notin> set (df_columns d)
      then Inl KeyError
      else Inr \<lparr>self_df = d,
                self_issues = start @
                  (if ''percentage_of_portfolio'' \<in> set (df_columns d) \<and>
                      outlier_schemes g d \<noteq> []
                   then [''Found '' @ str_nat (length (outlier_schemes g d)) @
                         '' schemes with unusual portfolio sum'']
                   else [])\<rparr>)"
  by (simp add: check_portfolio_percentages_def)

lemma check_duplicates_eq:
  "check_duplicates \<lparr>self_df = d, self_issues = start\<rparr> =
     (if ''scheme_name'' \<notin> set (df_columns d) \<or> ''instrument_name'' \<notin> set (df_columns d)
      then Inl KeyError
      else Inr \<lparr>self_df = d,
                self_issues = start @
                  (if duplicates d \<noteq> []
                   then [''Found '' @ str_nat (length (duplicates d)) @ '' duplicate holdings'']
                   else [])\<rparr>)"
  by (simp add: check_duplicates_def)

lemma run_all_checks_found:
  fixes g :: "rat list \<Rightarrow> rat" and d :: dataframe
  defines "a \<equiv> (if set required_fields \<subseteq> set (df_columns d) then []
            else [''Missing required columns: '' @
                  str_list (filter (\<lambda>f. f \<notin> set (df_columns d)) required_fields)])"
    and "b \<equiv> (if ''isin'' \<in> set (df_columns d) \<and> invalid_isins d \<noteq> []
            then [''Found '' @ str_nat (length (invalid_isins d)) @ '' invalid ISIN codes'']
            else [])"
    and "c \<equiv> (if ''percentage_of_portfolio'' \<in> set (df_columns d) \<and> out_of_range d \<noteq> []
            then [''Found '' @ str_nat (length (out_of_range d)) @
                  '' holdings with invalid percentage'']
            else [])"
    and "m \<equiv> (if ''market_value_lakhs'' \<in> set (df_columns d) \<and> negative_values d \<noteq> []
            then [''Found '' @ str_nat (length (negative_values d)) @
                  '' holdings with negative value'']
            else [])"
    and "p \<equiv> (if ''percentage_of_portfolio'' \<in> set (df_columns d) \<and> outlier_schemes g d \<noteq> []
            then [''Found '' @ str_nat (length (outlier_schemes g d)) @
                  '' schemes with unusual portfolio sum'']
            else [])"
    and "q \<equiv> (if duplicates d \<noteq> []
            then [''Found '' @ str_nat (length (duplicates d)) @ '' duplicate holdings'']
            else [])"
  shows "run_all_checks g \<lparr>self_df = d, self_issues = start\<rparr> =
     (if ''isin'' \<in> set (df_columns d) \<and> isin_without_text d then Inl AttributeError
      else if ''scheme_name'' \<notin> set (df_columns d) \<or> ''instrument_name'' \<notin> set (df_columns d)
      then Inl KeyError
      else Inr (\<lparr>self_df = d, self_issues = start @ a @ b @ c @ m @ p @ q\<rparr>,
                if start @ a @ b @ c @ m @ p @ q = [] then PASSED else NEEDS_REVIEW))"
proof -
  have 1: "\<And>s. check_required_fields \<lparr>self_df = d, self_issues = s\<rparr> =
             \<lparr>self_df = d, self_issues = s @ a\<rparr>"
    unfolding a_def by (rule check_required_fields_eq)
  have 2: "\<And>s. check_isin_format \<lparr>self_df = d, self_issues = s\<rparr> =
             (if ''isin'' \<in> set (df_columns d) \<and> isin_without_text d then Inl AttributeError
              else Inr \<lparr>self_df = d, self_issues = s @ b\<rparr>)"
    unfolding b_def by (rule check_isin_format_eq)
  have 3: "\<And>s. check_numeric_ranges \<lparr>self_df = d, self_issues = s\<rparr> =
             \<lparr>self_df = d, self_issues = s @ c @ m\<rparr>"
    unfolding c_def m_def by (rule check_numeric_ranges_eq)
  have 4: "\<And>s. check_portfolio_percentages g \<lparr>self_df = d, self_issues = s\<rparr> =
             (if ''percentage_of_portfolio'' \<in> set (df_columns d) \<and>
                 ''scheme_name'' \<notin> set (df_columns d)
              then Inl KeyError
              else Inr \<lparr>self_df = d, self_issues = s @ p\<rparr>)"
    unfolding p_def by (rule check_portfolio_percentages_eq)
  have 5: "\<And>s. check_duplicates \<lparr>self_df = d, self_issues = s\<rparr> =
             (if ''scheme_name'' \<notin> set (df_columns d) \<or>
                 ''instrument_name'' \<notin> set (df_columns d)
              then Inl KeyError
              else Inr \<lparr>self_df = d, self_issues = s @ q\<rparr>)"
    unfolding q_def by (rule check_duplicates_eq)
  show ?thesis
    by (simp add: run_all_checks_def 1 2 3 4 5 check_missing_values_def print_summary_def)
qed




section \<open>Optional columns\<close>

lemma issue_added_neq: "v\<lparr>self_issues := self_issues v @ [issue]\<rparr> \<noteq> v"
proof
  assume "v\<lparr>self_issues := self_issues v @ [issue]\<rparr> = v"
  then have "self_issues (v\<lparr>self_issues := self_issues v @ [issue]\<rparr>) = self_issues v"
    by simp
  then show False by simp
qed

lemma check_required_fields_unchanged:
  "check_required_fields v = v \<longleftrightarrow> set required_fields \<subseteq> set (df_columns (self_df v))"
proof -
  have "filter (\<lambda>f. f \<notin> set (df_columns (self_df v))) required_fields = [] \<longleftrightarrow>
        set required_fields \<subseteq> set (df_columns (self_df v))"
    by (auto simp: filter_empty_conv)
  then show ?thesis
    by (auto simp: check_required_fields_def Let_def issue_added_neq)
qed

lemma run_all_checks_five_columns:
  assumes "set (df_columns d) = set required_fields" and "duplicates d = []"
  shows "run_all_checks g (PortfolioDataValidator d) = Inr (PortfolioDataValidator d, PASSED)"
proof -
  have cols: "''isin'' \<notin> set (df_columns d)" "''percentage_of_portfolio'' \<notin> set (df_columns d)"
    "''market_value_lakhs'' \<notin> set (df_columns d)"
    "''scheme_name'' \<in> set (df_columns d)" "''instrument_name'' \<in> set (df_columns d)"
    using assms(1) by (simp_all add: required_fields_def)
  have sub: "set required_fields \<subseteq> set (df_columns d)"
    using assms(1) by simp
  show ?thesis
    unfolding PortfolioDataValidator_def run_all_checks_found
    using cols sub assms(2) by simp
qed

text \<open>
  Claim C10. A column that is optional raises no issue by being absent: without \<open>isin\<close>
  the ISIN check leaves the validator as it is; without \<open>percentage_of_portfolio\<close> the
  portfolio-sum check leaves it as it is and the range check can add only the issue about
  negative market values; without \<open>market_value_lakhs\<close> the range check can add only the
  issue about percentages. The required-fields check leaves the validator as it is exactly
  when the five required columns are there, and a dataset with just these five columns and
  no repeated pair of scheme and instrument gets the verdict \<open>PASSED\<close>.
\<close>

theorem optional_columns_absent_no_issue:
  "(''isin'' \<notin> set (df_columns (self_df v)) \<longrightarrow> check_isin_format v = Inr v) \<and>
   (''percentage_of_portfolio'' \<notin> set (df_columns (self_df v)) \<longrightarrow>
      check_portfolio_percentages group_sum v = Inr v \<and>
      check_numeric_ranges v =
        (if ''market_value_lakhs'' \<in> set (df_columns (self_df v)) \<and>
            0 < length (negative_values (self_df v))
         then v\<lparr>self_issues := self_issues v @
                  [''Found '' @ str_nat (length (negative_values (self_df v))) @
                   '' holdings with negative value'']\<rparr>
         else v)) \<and>
   (''market_value_lakhs'' \<notin> set (df_columns (self_df v)) \<longrightarrow>
      check_numeric_ranges v =
        (if ''percentage_of_portfolio'' \<in> set (df_columns (self_df v)) \<and>
            0 < length (out_of_range (self_df v))
         then v\<lparr>self_issues := self_issues v @
                  [''Found '' @ str_nat (length (out_of_range (self_df v))) @
                   '' holdings with invalid percentage'']\<rparr>
         else v)) \<and>
   (check_required_fields v = v \<longleftrightarrow> set required_fields \<subseteq> set (df_columns (self_df v))) \<and>
   (set (df_columns d) = set required_fields \<and> duplicates d = [] \<longrightarrow>
      run_all_checks group_sum (PortfolioDataValidator d) = Inr (PortfolioDataValidator d, PASSED))"
proof (intro conjI impI)
  show "check_isin_format v = Inr v" if "''isin'' \<notin> set (df_columns (self_df v))"
    using that by (simp add: check_isin_format_def)
  show "check_portfolio_percentages group_sum v = Inr v"
    if "''percentage_of_portfolio'' \<notin> set (df_columns (self_df v))"
    using that by (simp add: check_portfolio_percentages_def)
  show "check_numeric_ranges v =
        (if ''market_value_lakhs'' \<in> set (df_columns (self_df v)) \<and>
            0 < length (negative_values (self_df v))
         then v\<lparr>self_issues := self_issues v @
                  [''Found '' @ str_nat (length (negative_values (self_df v))) @
                   '' holdings with negative value'']\<rparr>
         else v)"
    if "''percentage_of_portfolio'' \<notin> set (df_columns (self_df v))"
    using that by (simp add: check_numeric_ranges_def)
  show "check_numeric_ranges v =
        (if ''percentage_of_portfolio'' \<in> set (df_columns (self_df v)) \<and>
            0 < length (out_of_range (self_df v))
         then v\<lparr>self_issues := self_issues v @
                  [''Found '' @ str_nat (length (out_of_range (self_df v))) @
                   '' holdings with invalid percentage'']\<rparr>
         else v)"
    if "''market_value_lakhs'' \<notin> set (df_columns (self_df v))"
    using that by (simp add: check_numeric_ranges_def Let_def)
  show "check_required_fields v = v \<longleftrightarrow> set required_fields \<subseteq> set (df_columns (self_df v))"
    by (rule check_required_fields_unchanged)
  show "run_all_checks group_sum (PortfolioDataValidator d) = Inr (PortfolioDataValidator d, PASSED)"
    if "set (df_columns d) = set required_fields \<and> duplicates d = []"
    using that by (simp add: run_all_checks_five_columns)
qed

theorem optional_columns_absent_no_issue_witness:
  "check_isin_format (PortfolioDataValidator five_columns) =
     Inr (PortfolioDataValidator five_columns) \<and>
   check_numeric_ranges (PortfolioDataValidator five_columns) = PortfolioDataValidator five_columns \<and>
   check_portfolio_percentages sum_list (PortfolioDataValidator five_columns) =
     Inr (PortfolioDataValidator five_columns) \<and>
   check_required_fields (PortfolioDataValidator five_columns) = PortfolioDataValidator five_columns \<and>
   run_all_checks sum_list (PortfolioDataValidator five_columns) =
     Inr (PortfolioDataValidator five_columns, PASSED)"
proof -
  let ?v = "PortfolioDataValidator five_columns"
  have d: "self_df ?v = five_columns" by (simp add: PortfolioDataValidator_def)
  have cols: "set (df_columns five_columns) = set required_fields"
    by (simp add: five_columns_def required_fields_def)
  have a: "''isin'' \<notin> set (df_columns (self_df ?v))"
    "''percentage_of_portfolio'' \<notin> set (df_columns (self_df ?v))"
    "''market_value_lakhs'' \<notin> set (df_columns (self_df ?v))"
    "set required_fields \<subseteq> set (df_columns (self_df ?v))"
    by (simp_all add: d cols) (simp_all add: required_fields_def)
  have dup: "duplicates five_columns = []" by code_simp
  from optional_columns_absent_no_issue [of ?v sum_list five_columns] a cols dup
  show ?thesis by simp
qed

end
